theory Spec2Isabelle
  imports Complex_Main
begin

section \<open>The local physics engine of Cosmic-Impact\<close>

text \<open>
  The development embeds \<^verbatim>\<open>src/services/geminiService.ts\<close> (the local engine,
  \<^verbatim>\<open>analyzeAsteroid\<close>, \<^verbatim>\<open>getComposition\<close>, \<^verbatim>\<open>generateSummary\<close>) and the
  types of \<^verbatim>\<open>src/types.ts\<close>.

  Numbers. A finite JavaScript \<^verbatim>\<open>number\<close> is modelled by the \<^typ>\<open>real\<close> it
  denotes, and the input fields are finite. The interpolation of the impact
  probability, whose value is rounded to a decimal and compared with a cutoff, rounds
  each operation to binary64 as the double arithmetic does (\<open>binary64\<close> below). The
  physical quantities (volume, mass, energy, crater size) are computed in exact
  arithmetic: there a double stands for the real it approximates, and binary64 overflow
  and underflow are not modelled, so the statements about them that depend on the
  magnitude of the input carry explicit bounds on the diameter and the velocity. The
  one way the engine reaches \<^verbatim>\<open>NaN\<close> from finite operands of such magnitude is
  \<^verbatim>\<open>Math.pow\<close> of a negative base with a non-integer exponent; the values that
  flow from such a call have the type \<open>number\<close> below, where \<^verbatim>\<open>NaN\<close> is a value.

  Strings. A string is a list of bytes, the UTF-8 encoding of the source text.
\<close>

subsection \<open>types.ts\<close>

text \<open>
  \<^verbatim>\<open>enum AsteroidType\<close> is a string enum: at run time a type is a string, and a
  value outside the enum is a string different from the four below.
\<close>

type_synonym AsteroidType = string

definition STONY :: AsteroidType where
  "STONY = ''Stony (Silicate)''"

definition METALLIC :: AsteroidType where
  "METALLIC = ''Metallic (Iron-Nickel)''"

definition ICY :: AsteroidType where
  "ICY = ''Icy (Cometary)''"

definition CARBONACEOUS :: AsteroidType where
  "CARBONACEOUS = ''Carbonaceous (C-type)''"

record AsteroidInput =
  name :: string
  diameter :: real
  velocity :: real
  distance :: real
  type :: AsteroidType

record DimensionalStep =
  step :: string
  equation :: string
  explanation :: string
  result :: string

record CompositionElement =
  element :: string
  percentage :: real
  fill :: string

datatype number = Num real | NaN

record AnalysisResult =
  isHit :: bool
  impactProbability :: real
  kineticEnergyMegatons :: real
  craterSizeMeters :: number
  analysisSummary :: string
  dimensionalProcess :: "DimensionalStep list"
  composition :: "CompositionElement list"
  rawMarkdown :: string
  timestamp :: int

subsection \<open>The JavaScript runtime\<close>

text \<open>
  The digits that the runtime prints for a number (template-literal interpolation, that
  is \<^verbatim>\<open>Number::toString\<close>, \<^verbatim>\<open>toFixed\<close>, \<^verbatim>\<open>toExponential\<close>, the
  locale-dependent \<^verbatim>\<open>toLocaleString\<close>), the Unicode-aware
  \<^verbatim>\<open>String.prototype.toUpperCase\<close> and the clock are services of the host: the engine
  is a function of the host and of its input.
\<close>

record Host =
  toString :: "real \<Rightarrow> string"
  toFixed :: "real \<Rightarrow> nat \<Rightarrow> string"
  toExponential :: "real \<Rightarrow> nat \<Rightarrow> string"
  toLocaleString :: "real \<Rightarrow> string"
  toLocaleString_maximumFractionDigits :: "real \<Rightarrow> nat \<Rightarrow> string"
  toUpperCase :: "string \<Rightarrow> string"
  Date_now :: int

text \<open>
  Rounding to binary64, for a real below the overflow threshold: the nearest multiple of
  the unit in the last place of the binade of \<open>x\<close> (52 fraction bits, the binades below
  \<open>2^-1022\<close> sharing the subnormal spacing), a tie going to the even multiple.
\<close>

definition round_ties_even :: "real \<Rightarrow> int" where
  "round_ties_even y =
     (let n = \<lfloor>y\<rfloor> in
      if y - of_int n < 1 / 2 then n
      else if 1 / 2 < y - of_int n then n + 1
      else if even n then n else n + 1)"

definition binary64 :: "real \<Rightarrow> real" where
  "binary64 x =
     (if x = 0 then 0
      else (let e = max (- 1022) \<lfloor>log 2 \<bar>x\<bar>\<rfloor>;
                q = 2 powr (of_int e - 52)
            in q * of_int (round_ties_even (x / q))))"

text \<open>
  \<^verbatim>\<open>parseFloat(x.toFixed(f))\<close>: \<^verbatim>\<open>toFixed\<close> prints \<open>n / 10^f\<close> for the integer
  \<open>n\<close> nearest to \<open>x * 10^f\<close>, the larger one of two, after the sign of a negative
  \<open>x\<close> was set aside (ECMAScript, Number.prototype.toFixed, for \<open>|x| < 10^21\<close>), and
  \<^verbatim>\<open>parseFloat\<close> reads that decimal back.
\<close>

definition parseFloat_toFixed :: "real \<Rightarrow> nat \<Rightarrow> real" where
  "parseFloat_toFixed x f =
     (if x < 0 then - (of_int \<lfloor>(- x) * 10 ^ f + 1 / 2\<rfloor> / 10 ^ f)
      else of_int \<lfloor>x * 10 ^ f + 1 / 2\<rfloor> / 10 ^ f)"

text \<open>
  \<^verbatim>\<open>Math.pow(b, e)\<close> at a finite base \<open>b\<close> and a non-integer exponent \<open>e\<close>:
  \<^verbatim>\<open>NaN\<close> on a negative base, \<open>b\<close> to the power \<open>e\<close> on a positive one, and \<open>0\<close>
  at \<open>b = 0\<close> when \<open>0 < e\<close> (the engine's one negative exponent has the base 9.81).
  With the exponents 2 and 3 \<^verbatim>\<open>Math.pow\<close> is the power \<open>b ^ 2\<close>, \<open>b ^ 3\<close> on every
  base.
\<close>

definition Math_pow :: "real \<Rightarrow> real \<Rightarrow> number" where
  "Math_pow b e = (if b < 0 then NaN else Num (b powr e))"

text \<open>The product of two numbers: \<^verbatim>\<open>NaN\<close> when one of them is.\<close>

fun times_number :: "number \<Rightarrow> number \<Rightarrow> number" where
  "times_number (Num a) (Num b) = Num (a * b)"
| "times_number _ _ = NaN"

text \<open>
  \<^verbatim>\<open>String.prototype.toUpperCase\<close> on a string of ASCII characters: the letters a to
  z become A to Z and the other characters stay. The engine calls it on the four tier
  labels, which are ASCII; the upper-casing of the free-text name is the host's.
\<close>

definition toUpperCase_ASCII_char :: "char \<Rightarrow> char" where
  "toUpperCase_ASCII_char c =
     (case map_of (zip ''abcdefghijklmnopqrstuvwxyz'' ''ABCDEFGHIJKLMNOPQRSTUVWXYZ'') c of
        Some u \<Rightarrow> u
      | None \<Rightarrow> c)"

definition toUpperCase_ASCII :: "string \<Rightarrow> string" where
  "toUpperCase_ASCII s = map toUpperCase_ASCII_char s"

text \<open>The rejection reason of a promise: a JavaScript \<^verbatim>\<open>Error\<close> and its message.\<close>

datatype error = Error string

subsection \<open>geminiService.ts: constants\<close>

definition DENSITY_MAP :: "AsteroidType \<rightharpoonup> real" where
  "DENSITY_MAP = [STONY \<mapsto> 2700, METALLIC \<mapsto> 7870, ICY \<mapsto> 1000, CARBONACEOUS \<mapsto> 1300]"

definition TNT_JOULES :: real where
  "TNT_JOULES = 4184000000000000"

definition EARTH_RADIUS_KM :: real where
  "EARTH_RADIUS_KM = 6371"

text \<open>
  \<^verbatim>\<open>DENSITY_MAP[input.type] || 2500\<close>: the table's entry, and 2500 when the key is
  absent or the entry is falsy (zero). The table is read at its own four keys: a type
  string that names a property every JavaScript object inherits (such as
  \<^verbatim>\<open>constructor\<close>), where the lookup yields that property and not a number, is
  outside the model, and the statements about the density of a type are made for the
  four types of the enum.
\<close>

definition density_of :: "AsteroidType \<Rightarrow> real" where
  "density_of t =
     (case DENSITY_MAP t of
        Some d \<Rightarrow> if d = 0 then 2500 else d
      | None \<Rightarrow> 2500)"

subsection \<open>getComposition\<close>

definition getComposition :: "AsteroidType \<Rightarrow> CompositionElement list" where
  "getComposition t =
     (if t = STONY then
        [\<lparr>element = ''Silicates'', percentage = 70, fill = ''#a8a29e''\<rparr>,
         \<lparr>element = ''Iron/Nickel'', percentage = 15, fill = ''#94a3b8''\<rparr>,
         \<lparr>element = ''Pyroxene'', percentage = 10, fill = ''#d6d3d1''\<rparr>,
         \<lparr>element = ''Olivine'', percentage = 5, fill = ''#86efac''\<rparr>]
      else if t = METALLIC then
        [\<lparr>element = ''Iron'', percentage = 85, fill = ''#64748b''\<rparr>,
         \<lparr>element = ''Nickel'', percentage = 14, fill = ''#cbd5e1''\<rparr>,
         \<lparr>element = ''Iridium'', percentage = 1, fill = ''#f1f5f9''\<rparr>]
      else if t = ICY then
        [\<lparr>element = ''Water Ice'', percentage = 60, fill = ''#bfdbfe''\<rparr>,
         \<lparr>element = ''CO2 Ice'', percentage = 20, fill = ''#e0f2fe''\<rparr>,
         \<lparr>element = ''Dust'', percentage = 15, fill = ''#7dd3fc''\<rparr>,
         \<lparr>element = ''Organics'', percentage = 5, fill = ''#0ea5e9''\<rparr>]
      else if t = CARBONACEOUS then
        [\<lparr>element = ''Carbon'', percentage = 45, fill = ''#475569''\<rparr>,
         \<lparr>element = ''Water'', percentage = 20, fill = ''#334155''\<rparr>,
         \<lparr>element = ''Silicates'', percentage = 25, fill = ''#94a3b8''\<rparr>,
         \<lparr>element = ''Sulfides'', percentage = 10, fill = ''#fbbf24''\<rparr>]
      else [])"

subsection \<open>generateSummary\<close>

definition energyStr :: "real \<Rightarrow> string" where
  "energyStr energy =
     (if energy < 1 then ''Local Damage''
      else if energy < 100 then ''Regional Destruction''
      else if energy < 10000 then ''Continental Catastrophe''
      else ''Extinction Event'')"

definition status :: "bool \<Rightarrow> string" where
  "status hit =
     (if hit then ''CRITICAL: IMPACT TRAJECTORY CONFIRMED.''
      else ''SAFE: NO INTERSECTION DETECTED.'')"

text \<open>The line break of the template, followed by its four spaces of indentation.\<close>

definition nl :: string where
  "nl = CHR 0x0A # ''    ''"

definition generateSummary ::
  "Host \<Rightarrow> string \<Rightarrow> bool \<Rightarrow> real \<Rightarrow> string \<Rightarrow> real \<Rightarrow> string" where
  "generateSummary h nm hit energy ty prob =
     ''PHYSICS ENGINE REPORT // TARGET: '' @ toUpperCase h nm @ nl
     @ nl
     @ ''CLASSIFICATION: '' @ ty @ nl
     @ ''TRAJECTORY ANALYSIS: '' @ toString h prob @ ''% Probability of Impact.'' @ nl
     @ ''STATUS: '' @ status hit @ nl
     @ nl
     @ ''KINETIC YIELD: ~'' @ toLocaleString_maximumFractionDigits h energy 2
     @ '' Megatons.'' @ nl
     @ ''THREAT LEVEL: '' @ toUpperCase_ASCII (energyStr energy) @ ''.'' @ nl
     @ nl
     @ ''Dimensional analysis verifies mass-velocity integration. All constants valid.''"

subsection \<open>analyzeAsteroid\<close>

text \<open>
  The two assignments of the probability branch, as the pair \<open>(impactProb, isHit)\<close>
  before the clean-up of the probability. The limits 8371 and 50000 and their difference
  41629 are integers, which binary64 holds exactly; the subtraction, the division, the
  complement and the product of the interpolation each round to binary64.
\<close>

definition impact_branch :: "real \<Rightarrow> real \<times> bool" where
  "impact_branch d =
     (if d < EARTH_RADIUS_KM + 2000 then (100, True)
      else if d < 50000 then
        (let closeLimit = EARTH_RADIUS_KM + 2000;
             outerLimit = 50000;
             range = outerLimit - closeLimit;
             position = binary64 (d - closeLimit);
             impactProb = binary64 (100 * binary64 (1 - binary64 (position / range)))
         in (impactProb, impactProb > 60))
      else (0, False))"

text \<open>Greek pi, Greek rho and superscript three in UTF-8.\<close>

definition utf8_pi :: string where
  "utf8_pi = [CHR 0xCF, CHR 0x80]"

definition utf8_rho :: string where
  "utf8_rho = [CHR 0xCF, CHR 0x81]"

definition utf8_cubed :: string where
  "utf8_cubed = [CHR 0xC2, CHR 0xB3]"

text \<open>
  The engine. The promise of the source settles after a pause of 800 ms, which has no
  part in the value; the body has no \<^verbatim>\<open>throw\<close>, so the promise is fulfilled
  (\<open>Inr\<close>) on every path.
\<close>

definition analyzeAsteroid :: "Host \<Rightarrow> AsteroidInput \<Rightarrow> error + AnalysisResult" where
  "analyzeAsteroid h input =
     (let density = density_of (type input);
          radius = diameter input / 2;
          volume = (4 / 3) * pi * radius ^ 3;
          mass = density * volume;
          velocityMs = velocity input * 1000;
          energyJoules = 0.5 * mass * velocityMs ^ 2;
          energyMt = energyJoules / TNT_JOULES;
          (impactProb0, hit) = impact_branch (distance input);
          impactProb = max 0 (min 100 (parseFloat_toFixed impactProb0 1));
          rho_i = density;
          rho_t = 2500;
          L = diameter input;
          v = velocityMs;
          g = 9.81;
          term1 = Math_pow (rho_i / rho_t) (1 / 3);
          term2 = Math_pow L 0.78;
          term3 = Math_pow v 0.44;
          term4 = Math_pow g (- 0.22);
          craterDiameter =
            times_number (times_number (times_number (times_number (Num 1.161) term1) term2)
              term3) term4;
          steps =
            [\<lparr>step = ''Calculate Radius'',
              equation = ''r = d / 2 = '' @ toString h (diameter input) @ '' / 2'',
              explanation = ''Derive radius from diameter to determine spherical volume.'',
              result = toFixed h radius 2 @ '' m''\<rparr>,
             \<lparr>step = ''Calculate Volume'',
              equation = ''V = (4/3) * '' @ utf8_pi @ '' * r^3'',
              explanation = ''Compute volume of sphere.'',
              result = toExponential h volume 2 @ '' m'' @ utf8_cubed\<rparr>,
             \<lparr>step = ''Derive Mass'',
              equation = ''M = '' @ utf8_rho @ '' * V'',
              explanation = ''Calculate mass using '' @ type input @ '' density (''
                @ toString h density @ '' kg/m'' @ utf8_cubed @ '').'',
              result = toExponential h mass 2 @ '' kg''\<rparr>,
             \<lparr>step = ''Velocity Conversion'',
              equation = ''v_ms = v_km * 1000'',
              explanation = ''Convert km/s to m/s for standard Joule calculation.'',
              result = toLocaleString h velocityMs @ '' m/s''\<rparr>,
             \<lparr>step = ''Kinetic Energy'',
              equation = ''E_k = (1/2) * M * v^2'',
              explanation = ''Compute kinetic energy using classical mechanics.'',
              result = toExponential h energyJoules 2 @ '' J''\<rparr>,
             \<lparr>step = ''TNT Equivalent'',
              equation = ''MT = E_k / 4.184e15'',
              explanation = ''Convert Joules to Megatons of TNT for impact context.'',
              result = toFixed h energyMt 2 @ '' MT''\<rparr>];
          comp = getComposition (type input);
          summary = generateSummary h (name input) hit energyMt (type input) impactProb
      in Inr \<lparr>isHit = hit,
              impactProbability = impactProb,
              kineticEnergyMegatons = energyMt,
              craterSizeMeters = craterDiameter,
              analysisSummary = summary,
              dimensionalProcess = steps,
              composition = comp,
              rawMarkdown = ''Generated via Local Physics Engine.'',
              timestamp = Date_now h\<rparr>)"

text \<open>
  A host whose functions print nothing and whose clock reads 0, and the default input
  of \<^verbatim>\<open>src/constants.ts\<close>: the runtime and the input of the closed examples. No
  property below depends on the host.
\<close>

definition silent_host :: Host where
  "silent_host =
     \<lparr>toString = (\<lambda>x. []), toFixed = (\<lambda>x f. []), toExponential = (\<lambda>x f. []),
      toLocaleString = (\<lambda>x. []), toLocaleString_maximumFractionDigits = (\<lambda>x f. []),
      toUpperCase = (\<lambda>s. []), Date_now = 0\<rparr>"

definition DEFAULT_INPUT :: AsteroidInput where
  "DEFAULT_INPUT =
     \<lparr>name = ''Neo-X1'', diameter = 50, velocity = 17, distance = 384400, type = STONY\<rparr>"

subsection \<open>The probability rule in the words of the specification\<close>

text \<open>
  The piecewise rule of the specification (inner boundary 8371, outer boundary 50000,
  cutoff 60), its interpolation
  \<open>100 * (1 - (distance - innerBoundary) / (outerBoundary - innerBoundary))\<close> in the
  double-precision arithmetic the specification prescribes, and its clean-up: clamped to
  the interval from 0 to 100, then rounded to one decimal place. The engine is compared
  with them below.
\<close>

definition spec_probability :: "real \<Rightarrow> real" where
  "spec_probability d =
     (if d < 8371 then 100
      else if d < 50000 then
        binary64 (100 * binary64 (1 - binary64 (binary64 (d - 8371) / (50000 - 8371))))
      else 0)"

definition spec_isHit :: "real \<Rightarrow> bool" where
  "spec_isHit d =
     (if d < 8371 then True
      else if d < 50000 then spec_probability d > 60
      else False)"

definition clamp_round1 :: "real \<Rightarrow> real" where
  "clamp_round1 p = of_int (round (10 * max 0 (min 100 p))) / 10"

section \<open>Properties\<close>

subsection \<open>Auxiliary facts\<close>

lemma density_of_enum:
  "density_of STONY = 2700" "density_of METALLIC = 7870"
  "density_of ICY = 1000" "density_of CARBONACEOUS = 1300"
  by (simp_all add: density_of_def DENSITY_MAP_def STONY_def METALLIC_def ICY_def
      CARBONACEOUS_def)

lemma analyzeAsteroid_fulfilled: "\<exists>r. analyzeAsteroid h input = Inr r"
  by (simp add: analyzeAsteroid_def Let_def split: prod.splits)

lemma projr_kineticEnergyMegatons:
  "kineticEnergyMegatons (projr (analyzeAsteroid h input)) =
     0.5 * (density_of (type input) * ((4 / 3) * pi * (diameter input / 2) ^ 3))
       * (velocity input * 1000) ^ 2 / TNT_JOULES"
  by (simp add: analyzeAsteroid_def Let_def split: prod.splits)

lemma projr_impactProbability:
  "impactProbability (projr (analyzeAsteroid h input)) =
     max 0 (min 100 (parseFloat_toFixed (fst (impact_branch (distance input))) 1))"
  by (simp add: analyzeAsteroid_def Let_def split: prod.splits)

lemma projr_isHit:
  "isHit (projr (analyzeAsteroid h input)) = snd (impact_branch (distance input))"
  by (simp add: analyzeAsteroid_def Let_def split: prod.splits)

lemma projr_craterSizeMeters:
  "craterSizeMeters (projr (analyzeAsteroid h input)) =
     times_number (times_number (times_number (times_number (Num 1.161)
       (Math_pow (density_of (type input) / 2500) (1 / 3)))
       (Math_pow (diameter input) 0.78))
       (Math_pow (velocity input * 1000) 0.44))
       (Math_pow 9.81 (- 0.22))"
  by (simp add: analyzeAsteroid_def Let_def split: prod.splits)

lemma projr_composition:
  "composition (projr (analyzeAsteroid h input)) = getComposition (type input)"
  by (simp add: analyzeAsteroid_def Let_def split: prod.splits)

lemma projr_rawMarkdown:
  "rawMarkdown (projr (analyzeAsteroid h input)) = ''Generated via Local Physics Engine.''"
  by (simp add: analyzeAsteroid_def Let_def split: prod.splits)

lemma projr_analysisSummary:
  "analysisSummary (projr (analyzeAsteroid h input)) =
     generateSummary h (name input) (isHit (projr (analyzeAsteroid h input)))
       (kineticEnergyMegatons (projr (analyzeAsteroid h input))) (type input)
       (impactProbability (projr (analyzeAsteroid h input)))"
  by (simp add: analyzeAsteroid_def Let_def split: prod.splits)

lemma parseFloat_toFixed_mono:
  assumes "x \<le> y" shows "parseFloat_toFixed x f \<le> parseFloat_toFixed y f"
proof -
  have pos: "0 \<le> of_int \<lfloor>z * 10 ^ f + 1 / 2\<rfloor> / (10::real) ^ f" if "0 \<le> z" for z :: real
  proof -
    have "0 \<le> z * 10 ^ f + 1 / 2" using that by simp
    then have "0 \<le> \<lfloor>z * 10 ^ f + 1 / 2\<rfloor>" by simp
    then show ?thesis by simp
  qed
  have mono: "of_int \<lfloor>u * 10 ^ f + 1 / 2\<rfloor> / (10::real) ^ f \<le> of_int \<lfloor>v * 10 ^ f + 1 / 2\<rfloor> / 10 ^ f"
    if "u \<le> v" for u v :: real
  proof -
    have "u * 10 ^ f + 1 / 2 \<le> v * 10 ^ f + 1 / 2" using that by simp
    then have "\<lfloor>u * 10 ^ f + 1 / 2\<rfloor> \<le> \<lfloor>v * 10 ^ f + 1 / 2\<rfloor>" by (rule floor_mono)
    then show ?thesis by (simp add: divide_right_mono)
  qed
  consider "y < 0" | "x < 0" "0 \<le> y" | "0 \<le> x" using assms by linarith
  then show ?thesis
  proof cases
    case 1
    then have "x < 0" using assms by simp
    moreover have "- y \<le> - x" using assms by simp
    ultimately show ?thesis using 1 mono[of "- y" "- x"] by (simp add: parseFloat_toFixed_def)
  next
    case 2
    have "0 \<le> - x" using 2 by simp
    then have "parseFloat_toFixed x f \<le> 0"
      using 2 pos[of "- x"] unfolding parseFloat_toFixed_def by simp
    moreover have "0 \<le> parseFloat_toFixed y f"
      using 2 pos[of y] unfolding parseFloat_toFixed_def by simp
    ultimately show ?thesis by linarith
  next
    case 3
    then have "0 \<le> y" using assms by simp
    then show ?thesis using 3 mono[of x y] assms by (simp add: parseFloat_toFixed_def)
  qed
qed

lemma parseFloat_toFixed_1_range:
  assumes "0 \<le> x" and "x \<le> 100"
  shows "0 \<le> parseFloat_toFixed x 1" and "parseFloat_toFixed x 1 \<le> 100"
proof -
  have a: "parseFloat_toFixed 0 1 = 0" by (simp add: parseFloat_toFixed_def)
  have b: "parseFloat_toFixed 100 1 = 100" by (simp add: parseFloat_toFixed_def)
  show "0 \<le> parseFloat_toFixed x 1" using parseFloat_toFixed_mono[OF assms(1), of 1] a by simp
  show "parseFloat_toFixed x 1 \<le> 100" using parseFloat_toFixed_mono[OF assms(2), of 1] b by simp
qed

lemma parseFloat_toFixed_round:
  "0 \<le> x \<Longrightarrow> parseFloat_toFixed x 1 = of_int (round (10 * x)) / 10"
  by (simp add: parseFloat_toFixed_def round_def mult.commute)

lemma round_ties_even_bounds:
  "y - 1 / 2 \<le> of_int (round_ties_even y)" "of_int (round_ties_even y) \<le> y + 1 / 2"
proof -
  define n where "n = \<lfloor>y\<rfloor>"
  have n: "of_int n \<le> y" "y < of_int n + 1" unfolding n_def by linarith+
  have r: "round_ties_even y = n \<and> y - of_int n \<le> 1 / 2
      \<or> round_ties_even y = n + 1 \<and> 1 / 2 \<le> y - of_int n"
    unfolding round_ties_even_def Let_def n_def[symmetric] by auto
  show "y - 1 / 2 \<le> of_int (round_ties_even y)" using r n by auto
  show "of_int (round_ties_even y) \<le> y + 1 / 2" using r n by auto
qed

lemma round_ties_even_mono:
  assumes "y1 \<le> y2" shows "round_ties_even y1 \<le> round_ties_even y2"
proof (cases "y1 = y2")
  case True then show ?thesis by simp
next
  case False
  then have lt: "y1 < y2" using assms by simp
  show ?thesis
  proof (rule ccontr)
    assume "\<not> round_ties_even y1 \<le> round_ties_even y2"
    then have "round_ties_even y2 + 1 \<le> round_ties_even y1" by simp
    then have "(of_int (round_ties_even y2) :: real) + 1 \<le> of_int (round_ties_even y1)"
      by (metis of_int_1 of_int_add of_int_le_iff)
    then show False
      using round_ties_even_bounds(2)[of y1] round_ties_even_bounds(1)[of y2] lt by linarith
  qed
qed

lemma round_ties_even_of_int [simp]: "round_ties_even (of_int n) = n"
  by (simp add: round_ties_even_def)

lemma binary64_eval:
  assumes "2 powr of_int e \<le> \<bar>x\<bar>" and "\<bar>x\<bar> < 2 powr (of_int e + 1)" and "- 1022 \<le> e"
  shows "binary64 x = 2 powr (of_int e - 52) * of_int (round_ties_even (x / 2 powr (of_int e - 52)))"
proof -
  have pos: "0 < \<bar>x\<bar>" using assms(1) by (smt (verit) powr_gt_zero)
  then have "\<lfloor>log 2 \<bar>x\<bar>\<rfloor> = e"
    using assms(1,2) floor_log_eq_powr_iff[of "\<bar>x\<bar>" 2 e] by simp
  then show ?thesis using pos assms(3) by (simp add: binary64_def Let_def max_def)
qed

lemma binary64_exact:
  assumes "2 powr of_int e \<le> \<bar>x\<bar>" and "\<bar>x\<bar> < 2 powr (of_int e + 1)" and "- 1022 \<le> e"
    and "x / 2 powr (of_int e - 52) = of_int n"
  shows "binary64 x = x"
proof -
  have "binary64 x = 2 powr (of_int e - 52) * (x / 2 powr (of_int e - 52))"
    using binary64_eval[OF assms(1-3)] assms(4) by simp
  then show ?thesis by simp
qed

lemma binary64_mono_nonneg:
  assumes "0 \<le> x" and "x \<le> y"
  shows "binary64 x \<le> binary64 y"
proof (cases "x = 0")
  case True
  show ?thesis
  proof (cases "y = 0")
    case True then show ?thesis using \<open>x = 0\<close> by simp
  next
    case False
    define q where "q = (2::real) powr (of_int (max (- 1022) \<lfloor>log 2 \<bar>y\<bar>\<rfloor>) - 52)"
    have q: "0 < q" by (simp add: q_def)
    have "0 \<le> y / q" using assms True q by simp
    then have "round_ties_even 0 \<le> round_ties_even (y / q)" by (rule round_ties_even_mono)
    then have "0 \<le> round_ties_even (y / q)" using round_ties_even_of_int[of 0] by simp
    then have "0 \<le> q * of_int (round_ties_even (y / q))" using q by simp
    then show ?thesis using True False by (simp add: binary64_def Let_def q_def)
  qed
next
  case False
  then have x: "0 < x" and y: "0 < y" using assms by simp_all
  define ex where "ex = max (- 1022) \<lfloor>log 2 \<bar>x\<bar>\<rfloor>"
  define ey where "ey = max (- 1022) \<lfloor>log 2 \<bar>y\<bar>\<rfloor>"
  define qx where "qx = (2::real) powr (of_int ex - 52)"
  define qy where "qy = (2::real) powr (of_int ey - 52)"
  have qx: "0 < qx" and qy: "0 < qy" by (simp_all add: qx_def qy_def)
  have bx: "binary64 x = qx * of_int (round_ties_even (x / qx))"
    using x by (simp add: binary64_def Let_def qx_def ex_def)
  have by': "binary64 y = qy * of_int (round_ties_even (y / qy))"
    using y by (simp add: binary64_def Let_def qy_def ey_def)
  have "log 2 x \<le> log 2 y" using x y assms by simp
  then have "\<lfloor>log 2 x\<rfloor> \<le> \<lfloor>log 2 y\<rfloor>" by (rule floor_mono)
  then have exy: "ex \<le> ey" using x y by (simp add: ex_def ey_def)
  show ?thesis
  proof (cases "ex = ey")
    case True
    then have "qx = qy" by (simp add: qx_def qy_def)
    moreover have "x / qy \<le> y / qy" using assms qy by (simp add: divide_right_mono)
    then have "round_ties_even (x / qy) \<le> round_ties_even (y / qy)"
      by (rule round_ties_even_mono)
    ultimately show ?thesis using bx by' qy by simp
  next
    case False
    then have lt: "ex + 1 \<le> ey" using exy by simp
    have "\<lfloor>log 2 x\<rfloor> \<le> ex" using x by (simp add: ex_def)
    then have "log 2 x < of_int ex + 1" by linarith
    then have xlt: "x < 2 powr (of_int ex + 1)"
      using x by (simp add: log_less_iff)
    have "(2::real) powr ((of_int ex - 52) + 53) = 2 powr (of_int ex - 52) * 2 powr 53"
      by (rule powr_add)
    then have "2 powr (of_int ex + 1) = qx * 2 powr 53"
      by (simp add: qx_def add.commute)
    then have "x / qx \<le> 2 powr 53" using xlt qx by (simp add: field_simps)
    then have "round_ties_even (x / qx) \<le> round_ties_even (2 powr 53)"
      by (rule round_ties_even_mono)
    moreover have "(2::real) powr 53 = of_int (2 ^ 53)" by simp
    then have "round_ties_even (2 powr 53) = 2 ^ 53"
      using round_ties_even_of_int[of "2 ^ 53"] by simp
    ultimately have "round_ties_even (x / qx) \<le> 2 ^ 53" by simp
    then have "(of_int (round_ties_even (x / qx)) :: real) \<le> of_int (2 ^ 53)"
      by (simp only: of_int_le_iff)
    then have "qx * of_int (round_ties_even (x / qx)) \<le> qx * 2 powr 53"
      using qx by simp
    then have ux: "binary64 x \<le> 2 powr (of_int ex + 1)"
      using bx \<open>2 powr (of_int ex + 1) = qx * 2 powr 53\<close> by simp
    have "- 1022 < ey" using lt by (simp add: ex_def)
    then have "ey = \<lfloor>log 2 y\<rfloor>" using y by (simp add: ey_def max_def split: if_splits)
    then have "of_int ey \<le> log 2 y" by simp
    then have yge: "2 powr of_int ey \<le> y" using y by (simp add: le_log_iff)
    have "(2::real) powr ((of_int ey - 52) + 52) = 2 powr (of_int ey - 52) * 2 powr 52"
      by (rule powr_add)
    then have "2 powr of_int ey = qy * 2 powr 52"
      by (simp add: qy_def)
    then have "2 powr 52 \<le> y / qy" using yge qy by (simp add: field_simps)
    then have "round_ties_even (2 powr 52) \<le> round_ties_even (y / qy)"
      by (rule round_ties_even_mono)
    moreover have "(2::real) powr 52 = of_int (2 ^ 52)" by simp
    then have "round_ties_even (2 powr 52) = 2 ^ 52"
      using round_ties_even_of_int[of "2 ^ 52"] by simp
    ultimately have "2 ^ 52 \<le> round_ties_even (y / qy)" by simp
    then have "(of_int (2 ^ 52) :: real) \<le> of_int (round_ties_even (y / qy))"
      by (simp only: of_int_le_iff)
    then have "qy * 2 powr 52 \<le> qy * of_int (round_ties_even (y / qy))"
      using qy by simp
    then have ly: "2 powr of_int ey \<le> binary64 y"
      using by' \<open>2 powr of_int ey = qy * 2 powr 52\<close> by simp
    have "(2::real) powr (of_int ex + 1) \<le> 2 powr of_int ey"
      using lt by (simp add: powr_mono flip: of_int_add)
    then show ?thesis using ux ly by linarith
  qed
qed

lemma binary64_fixed:
  "binary64 0 = 0" "binary64 1 = 1" "binary64 100 = 100" "binary64 41629 = 41629"
proof -
  show "binary64 0 = 0" by (simp add: binary64_def)
  show "binary64 1 = 1"
    by (rule binary64_exact[where e = 0 and n = "2 ^ 52"]) (simp_all add: powr_neg_numeral)
  show "binary64 100 = 100"
    by (rule binary64_exact[where e = 6 and n = "100 * 2 ^ 46"]) (simp_all add: powr_neg_numeral)
  show "binary64 41629 = 41629"
    by (rule binary64_exact[where e = 15 and n = "41629 * 2 ^ 37"])
      (simp_all add: powr_neg_numeral)
qed

lemma impact_branch_inner: "d < 8371 \<Longrightarrow> impact_branch d = (100, True)"
  by (simp add: impact_branch_def EARTH_RADIUS_KM_def)

lemma impact_branch_band:
  "8371 \<le> d \<Longrightarrow> d < 50000 \<Longrightarrow>
   impact_branch d =
     (binary64 (100 * binary64 (1 - binary64 (binary64 (d - 8371) / (50000 - 8371)))),
      binary64 (100 * binary64 (1 - binary64 (binary64 (d - 8371) / (50000 - 8371)))) > 60)"
  by (simp add: impact_branch_def EARTH_RADIUS_KM_def Let_def)

lemma impact_branch_outer: "50000 \<le> d \<Longrightarrow> impact_branch d = (0, False)"
  by (simp add: impact_branch_def EARTH_RADIUS_KM_def)

lemma band_steps:
  assumes "8371 \<le> d" and "d < 50000"
  shows "0 \<le> binary64 (d - 8371)" and "binary64 (d - 8371) \<le> 41629"
    and "0 \<le> binary64 (binary64 (d - 8371) / 41629)"
    and "binary64 (binary64 (d - 8371) / 41629) \<le> 1"
    and "0 \<le> binary64 (1 - binary64 (binary64 (d - 8371) / 41629))"
    and "binary64 (1 - binary64 (binary64 (d - 8371) / 41629)) \<le> 1"
proof -
  show a0: "0 \<le> binary64 (d - 8371)"
    using binary64_mono_nonneg[of 0 "d - 8371"] assms by (simp add: binary64_fixed)
  show a1: "binary64 (d - 8371) \<le> 41629"
    using binary64_mono_nonneg[of "d - 8371" 41629] assms by (simp add: binary64_fixed)
  have b: "0 \<le> binary64 (d - 8371) / 41629" "binary64 (d - 8371) / 41629 \<le> 1"
    using a0 a1 by simp_all
  show b0: "0 \<le> binary64 (binary64 (d - 8371) / 41629)"
    using binary64_mono_nonneg[of 0 "binary64 (d - 8371) / 41629"] b
    by (simp add: binary64_fixed)
  show b1: "binary64 (binary64 (d - 8371) / 41629) \<le> 1"
    using binary64_mono_nonneg[of "binary64 (d - 8371) / 41629" 1] b
    by (simp add: binary64_fixed)
  have c: "0 \<le> 1 - binary64 (binary64 (d - 8371) / 41629)"
    "1 - binary64 (binary64 (d - 8371) / 41629) \<le> 1"
    using b0 b1 by simp_all
  show "0 \<le> binary64 (1 - binary64 (binary64 (d - 8371) / 41629))"
    using binary64_mono_nonneg[of 0 "1 - binary64 (binary64 (d - 8371) / 41629)"] c
    by (simp add: binary64_fixed)
  show "binary64 (1 - binary64 (binary64 (d - 8371) / 41629)) \<le> 1"
    using binary64_mono_nonneg[of "1 - binary64 (binary64 (d - 8371) / 41629)" 1] c
    by (simp add: binary64_fixed)
qed

lemma band_range:
  assumes "8371 \<le> d" and "d < 50000"
  shows "0 \<le> binary64 (100 * binary64 (1 - binary64 (binary64 (d - 8371) / (50000 - 8371))))"
    and "binary64 (100 * binary64 (1 - binary64 (binary64 (d - 8371) / (50000 - 8371))))
          \<le> 100"
proof -
  let ?c = "binary64 (1 - binary64 (binary64 (d - 8371) / 41629))"
  have c: "0 \<le> 100 * ?c" "100 * ?c \<le> 100"
    using band_steps(5,6)[OF assms] by simp_all
  have "0 \<le> binary64 (100 * ?c)"
    using binary64_mono_nonneg[of 0 "100 * ?c"] c by (simp add: binary64_fixed)
  moreover have "binary64 (100 * ?c) \<le> 100"
    using binary64_mono_nonneg[of "100 * ?c" 100] c by (simp add: binary64_fixed)
  ultimately show
    "0 \<le> binary64 (100 * binary64 (1 - binary64 (binary64 (d - 8371) / (50000 - 8371))))"
    "binary64 (100 * binary64 (1 - binary64 (binary64 (d - 8371) / (50000 - 8371)))) \<le> 100"
    by simp_all
qed

lemma band_antimono:
  assumes "8371 \<le> d1" and "d1 \<le> d2" and "d2 < 50000"
  shows "binary64 (100 * binary64 (1 - binary64 (binary64 (d2 - 8371) / (50000 - 8371))))
      \<le> binary64 (100 * binary64 (1 - binary64 (binary64 (d1 - 8371) / (50000 - 8371))))"
proof -
  have r1: "8371 \<le> d1" "d1 < 50000" and r2: "8371 \<le> d2" "d2 < 50000"
    using assms by simp_all
  have "binary64 (d1 - 8371) \<le> binary64 (d2 - 8371)"
    using binary64_mono_nonneg[of "d1 - 8371" "d2 - 8371"] assms by simp
  then have "binary64 (d1 - 8371) / 41629 \<le> binary64 (d2 - 8371) / 41629"
    by (simp add: divide_right_mono)
  moreover have "0 \<le> binary64 (d1 - 8371) / 41629"
    using band_steps(1)[OF r1] by simp
  ultimately have "binary64 (binary64 (d1 - 8371) / 41629)
      \<le> binary64 (binary64 (d2 - 8371) / 41629)"
    by (rule binary64_mono_nonneg[rotated])
  then have "1 - binary64 (binary64 (d2 - 8371) / 41629)
      \<le> 1 - binary64 (binary64 (d1 - 8371) / 41629)"
    by simp
  moreover have "0 \<le> 1 - binary64 (binary64 (d2 - 8371) / 41629)"
    using band_steps(4)[OF r2] by simp
  ultimately have "binary64 (1 - binary64 (binary64 (d2 - 8371) / 41629))
      \<le> binary64 (1 - binary64 (binary64 (d1 - 8371) / 41629))"
    by (rule binary64_mono_nonneg[rotated])
  then have "100 * binary64 (1 - binary64 (binary64 (d2 - 8371) / 41629))
      \<le> 100 * binary64 (1 - binary64 (binary64 (d1 - 8371) / 41629))"
    by simp
  moreover have "0 \<le> 100 * binary64 (1 - binary64 (binary64 (d2 - 8371) / 41629))"
    using band_steps(5)[OF r2] by simp
  ultimately have "binary64 (100 * binary64 (1 - binary64 (binary64 (d2 - 8371) / 41629)))
      \<le> binary64 (100 * binary64 (1 - binary64 (binary64 (d1 - 8371) / 41629)))"
    by (rule binary64_mono_nonneg[rotated])
  then show ?thesis by simp
qed

lemma impact_branch_range: "0 \<le> fst (impact_branch d) \<and> fst (impact_branch d) \<le> 100"
proof -
  consider "d < 8371" | "8371 \<le> d" "d < 50000" | "50000 \<le> d" by linarith
  then show ?thesis
  proof cases
    case 1 then show ?thesis by (simp add: impact_branch_inner)
  next
    case 2 then show ?thesis using band_range[OF 2] by (simp add: impact_branch_band)
  next
    case 3 then show ?thesis by (simp add: impact_branch_outer)
  qed
qed

lemma impact_branch_antimono:
  assumes "d1 \<le> d2" shows "fst (impact_branch d2) \<le> fst (impact_branch d1)"
proof -
  consider "d1 < 8371" | "8371 \<le> d1" "d2 < 50000" | "8371 \<le> d1" "d1 < 50000" "50000 \<le> d2" | "50000 \<le> d1"
    by linarith
  then show ?thesis
  proof cases
    case 1 then show ?thesis using impact_branch_range[of d2] by (simp add: impact_branch_inner)
  next
    case 2
    then have "d1 < 50000" "8371 \<le> d2" using assms by simp_all
    then show ?thesis
      using 2 assms band_antimono[of d1 d2] by (simp add: impact_branch_band)
  next
    case 3 then show ?thesis using band_range(1)[of d1] by (simp add: impact_branch_band impact_branch_outer)
  next
    case 4
    then have "50000 \<le> d2" using assms by simp
    then show ?thesis using 4 by (simp add: impact_branch_outer)
  qed
qed

lemma density_of_pos: "0 < density_of t"
  by (simp add: density_of_def DENSITY_MAP_def)

lemma cleaned_band:
  assumes "0 \<le> p" and "p \<le> 100"
  shows "max 0 (min 100 (parseFloat_toFixed p 1)) = of_int (round (10 * max 0 (min 100 p))) / 10"
proof -
  have "max 0 (min 100 p) = p" using assms by simp
  moreover have "max 0 (min 100 (parseFloat_toFixed p 1)) = parseFloat_toFixed p 1"
    using parseFloat_toFixed_1_range[OF assms] by simp
  ultimately show ?thesis using parseFloat_toFixed_round[OF assms(1)] by simp
qed

lemma AsteroidType_distinct:
  "STONY \<noteq> METALLIC" "STONY \<noteq> ICY" "STONY \<noteq> CARBONACEOUS" "METALLIC \<noteq> ICY"
  "METALLIC \<noteq> CARBONACEOUS" "ICY \<noteq> CARBONACEOUS"
  "METALLIC \<noteq> STONY" "ICY \<noteq> STONY" "CARBONACEOUS \<noteq> STONY" "ICY \<noteq> METALLIC"
  "CARBONACEOUS \<noteq> METALLIC" "CARBONACEOUS \<noteq> ICY"
  by (simp_all add: STONY_def METALLIC_def ICY_def CARBONACEOUS_def)

lemma crater_closed_form:
  "craterSizeMeters (projr (analyzeAsteroid h input)) =
     (if diameter input < 0 \<or> velocity input < 0 then NaN
      else Num (1.161 * (density_of (type input) / 2500) powr (1 / 3)
             * diameter input powr 0.78 * (velocity input * 1000) powr 0.44
             * 9.81 powr (- 0.22)))"
proof -
  have "\<not> density_of (type input) / 2500 < 0"
    using density_of_pos[of "type input"] by simp
  then show ?thesis
    by (simp add: projr_craterSizeMeters Math_pow_def)
qed

lemma toUpperCase_tiers:
  "toUpperCase_ASCII ''Local Damage'' = ''LOCAL DAMAGE''"
  "toUpperCase_ASCII ''Regional Destruction'' = ''REGIONAL DESTRUCTION''"
  "toUpperCase_ASCII ''Continental Catastrophe'' = ''CONTINENTAL CATASTROPHE''"
  "toUpperCase_ASCII ''Extinction Event'' = ''EXTINCTION EVENT''"
  by (simp_all add: toUpperCase_ASCII_def toUpperCase_ASCII_char_def)

subsection \<open>Kinetic energy\<close>

text \<open>
  C1. For an input with positive diameter and velocity and one of the four types, the
  kinetic energy in megatons is
  \<open>0.5 * density * (4/3) * pi * (diameter/2)^3 * (velocity * 1000)^2 / 4.184e15\<close>,
  the density being 2700, 7870, 1000, 1300 for Stony, Metallic, Icy, Carbonaceous, and
  the velocity converted to m/s before it is squared.
\<close>

theorem kinetic_energy_formula:
  assumes "0 < diameter input" and "0 < velocity input"
    and "type input \<in> {STONY, METALLIC, ICY, CARBONACEOUS}"
  shows "\<exists>r. analyzeAsteroid h input = Inr r
    \<and> kineticEnergyMegatons r =
        0.5 * density_of (type input) * (4 / 3) * pi * (diameter input / 2) ^ 3
          * (velocity input * 1000) ^ 2 / 4184000000000000
    \<and> density_of STONY = 2700 \<and> density_of METALLIC = 7870
    \<and> density_of ICY = 1000 \<and> density_of CARBONACEOUS = 1300"
  by (simp add: analyzeAsteroid_def Let_def TNT_JOULES_def density_of_enum
      split: prod.splits)

theorem kinetic_energy_formula_witness:
  "0 < diameter DEFAULT_INPUT \<and> 0 < velocity DEFAULT_INPUT
   \<and> type DEFAULT_INPUT \<in> {STONY, METALLIC, ICY, CARBONACEOUS}
   \<and> (\<exists>r. analyzeAsteroid silent_host DEFAULT_INPUT = Inr r
        \<and> kineticEnergyMegatons r =
            0.5 * 2700 * (4 / 3) * pi * (50 / 2) ^ 3 * (17 * 1000) ^ 2 / 4184000000000000)"
  using kinetic_energy_formula [of DEFAULT_INPUT silent_host]
  by (simp add: DEFAULT_INPUT_def density_of_enum)

subsection \<open>Crater size\<close>



subsection \<open>Impact probability and hit flag\<close>

text \<open>
  C2. For every input the engine returns the probability of the piecewise rule, clamped
  to the interval from 0 to 100 and rounded to one decimal place, and the hit flag of the
  rule: below 8371 km the probability is 100 and the flag is set; from 8371 km and below
  50000 km the probability is \<open>100 * (1 - (distance - 8371) / (50000 - 8371))\<close>,
  evaluated in double precision, and the flag says whether that value exceeds 60; from
  50000 km on the probability is 0 and the flag is not set.
\<close>

theorem impact_probability_piecewise:
  "\<exists>r. analyzeAsteroid h input = Inr r
     \<and> impactProbability r = clamp_round1 (spec_probability (distance input))
     \<and> isHit r = spec_isHit (distance input)
     \<and> (distance input < 8371 \<longrightarrow> impactProbability r = 100 \<and> isHit r)
     \<and> (8371 \<le> distance input \<and> distance input < 50000 \<longrightarrow>
          impactProbability r =
            of_int (round (10 * binary64 (100 * binary64 (1 -
              binary64 (binary64 (distance input - 8371) / (50000 - 8371)))))) / 10
          \<and> isHit r =
            (binary64 (100 * binary64 (1 -
              binary64 (binary64 (distance input - 8371) / (50000 - 8371)))) > 60))
     \<and> (50000 \<le> distance input \<longrightarrow> impactProbability r = 0 \<and> \<not> isHit r)"
proof -
  obtain r where r: "analyzeAsteroid h input = Inr r"
    using analyzeAsteroid_fulfilled by blast
  let ?d = "distance input"
  have p: "impactProbability r = max 0 (min 100 (parseFloat_toFixed (fst (impact_branch ?d)) 1))"
    using projr_impactProbability[of h input] r by simp
  have hit: "isHit r = snd (impact_branch ?d)"
    using projr_isHit[of h input] r by simp
  have fst_eq: "fst (impact_branch ?d) = spec_probability ?d"
    by (simp add: impact_branch_def spec_probability_def EARTH_RADIUS_KM_def Let_def)
  have snd_eq: "snd (impact_branch ?d) = spec_isHit ?d"
    by (simp add: impact_branch_def spec_isHit_def spec_probability_def EARTH_RADIUS_KM_def Let_def)
  have rng: "0 \<le> spec_probability ?d" "spec_probability ?d \<le> 100"
    using impact_branch_range[of ?d] fst_eq by simp_all
  have 1: "impactProbability r = clamp_round1 (spec_probability ?d)"
    using p fst_eq cleaned_band[OF rng] by (simp add: clamp_round1_def)
  have 2: "impactProbability r = 100 \<and> isHit r" if "?d < 8371"
    using p hit impact_branch_inner[OF that] by (simp add: parseFloat_toFixed_def)
  have 3: "impactProbability r = 0 \<and> \<not> isHit r" if "50000 \<le> ?d"
    using p hit impact_branch_outer[OF that] by (simp add: parseFloat_toFixed_def)
  have 4: "impactProbability r =
        of_int (round (10 * binary64 (100 * binary64 (1 -
          binary64 (binary64 (?d - 8371) / (50000 - 8371)))))) / 10
      \<and> isHit r =
        (binary64 (100 * binary64 (1 - binary64 (binary64 (?d - 8371) / (50000 - 8371)))) > 60)"
    if b: "8371 \<le> ?d \<and> ?d < 50000"
  proof -
    define q where
      "q = binary64 (100 * binary64 (1 - binary64 (binary64 (?d - 8371) / (50000 - 8371))))"
    have ib: "impact_branch ?d = (q, q > 60)"
      unfolding q_def using impact_branch_band b by blast
    have q: "0 \<le> q" "q \<le> 100"
      unfolding q_def using band_range[of ?d] b by blast+
    have "max 0 (min 100 (parseFloat_toFixed q 1)) = parseFloat_toFixed q 1"
      using parseFloat_toFixed_1_range[OF q] by simp
    then have "impactProbability r = of_int (round (10 * q)) / 10"
      using p ib parseFloat_toFixed_round[OF q(1)] by simp
    moreover have "isHit r = (q > 60)" using hit ib by simp
    ultimately show ?thesis unfolding q_def by blast
  qed
  show ?thesis using r 1 2 3 4 hit snd_eq by blast
qed

theorem impact_probability_piecewise_witness:
  "(\<exists>r. analyzeAsteroid silent_host (DEFAULT_INPUT\<lparr>distance := 8000\<rparr>) = Inr r
      \<and> impactProbability r = 100 \<and> isHit r)
   \<and> (\<exists>r. analyzeAsteroid silent_host (DEFAULT_INPUT\<lparr>distance := 29185.5\<rparr>) = Inr r
      \<and> impactProbability r = 50 \<and> \<not> isHit r)
   \<and> (\<exists>r. analyzeAsteroid silent_host DEFAULT_INPUT = Inr r
      \<and> impactProbability r = 0 \<and> \<not> isHit r)"
proof -
  have e1: "binary64 (41629 / 2) = 41629 / 2"
    by (rule binary64_exact[where e = 14 and n = "41629 * 2 ^ 37"])
      (simp_all add: powr_neg_numeral)
  have e2: "binary64 (1 / 2) = 1 / 2"
    by (rule binary64_exact[where e = "- 1" and n = "2 ^ 52"])
      (simp_all add: powr_neg_numeral)
  have e3: "binary64 50 = 50"
    by (rule binary64_exact[where e = 5 and n = "50 * 2 ^ 47"])
      (simp_all add: powr_neg_numeral)
  show ?thesis
    using impact_probability_piecewise [of silent_host "DEFAULT_INPUT\<lparr>distance := 8000\<rparr>"]
      impact_probability_piecewise [of silent_host "DEFAULT_INPUT\<lparr>distance := 29185.5\<rparr>"]
      impact_probability_piecewise [of silent_host DEFAULT_INPUT]
    by (auto simp: DEFAULT_INPUT_def round_def e1 e2 e3)
qed

text \<open>
  Near a tie of the decimal rounding the binary64 rounding of the quotient decides: at
  the double nearest to 49229.8635 km the interpolation is 1.849999999999996 and the
  engine returns 1.8.
\<close>

lemma near_tie_steps:
  "binary64 (5615599439495299 / 137438953472) = 5615599439495299 / 137438953472"
  "binary64 (5615599439495299 / 5721446194085888) = 2210141517132071 / 2251799813685248"
  "binary64 (41658296553177 / 2251799813685248) = 41658296553177 / 2251799813685248"
  "binary64 (1041457413829425 / 562949953421312) = 1041457413829425 / 562949953421312"
proof -
  show "binary64 (5615599439495299 / 137438953472) = 5615599439495299 / 137438953472"
    by (rule binary64_exact[where e = 15 and n = 5615599439495299])
      (simp_all add: powr_neg_numeral)
  show "binary64 (5615599439495299 / 5721446194085888)
      = 2210141517132071 / 2251799813685248"
    by (subst binary64_eval[where e = "- 1"])
      (simp_all add: powr_neg_numeral round_ties_even_def Let_def)
  show "binary64 (41658296553177 / 2251799813685248) = 41658296553177 / 2251799813685248"
    by (rule binary64_exact[where e = "- 6" and n = "41658296553177 * 2 ^ 7"])
      (simp_all add: powr_neg_numeral)
  show "binary64 (1041457413829425 / 562949953421312) = 1041457413829425 / 562949953421312"
    by (rule binary64_exact[where e = 0 and n = "1041457413829425 * 2 ^ 3"])
      (simp_all add: powr_neg_numeral)
qed

lemma near_tie_probability:
  "fst (impact_branch (6766100919009411 / 137438953472))
     = 1041457413829425 / 562949953421312"
  "impactProbability
     (projr (analyzeAsteroid h (DEFAULT_INPUT\<lparr>distance := 6766100919009411 / 137438953472\<rparr>)))
   = 1.8"
proof -
  have b: "impact_branch (6766100919009411 / 137438953472)
      = (1041457413829425 / 562949953421312, False)"
    by (simp add: impact_branch_def EARTH_RADIUS_KM_def Let_def near_tie_steps)
  then show "fst (impact_branch (6766100919009411 / 137438953472))
     = 1041457413829425 / 562949953421312"
    by simp
  show "impactProbability
     (projr (analyzeAsteroid h (DEFAULT_INPUT\<lparr>distance := 6766100919009411 / 137438953472\<rparr>)))
   = 1.8"
    using b by (simp add: projr_impactProbability parseFloat_toFixed_def)
qed

text \<open>
  C7. Two inputs that differ in the distance alone, the first not farther than the second
  and both distances non-negative: the probability returned for the first is at least the
  probability returned for the second, across both boundaries and after the rounding and
  the clamping.
\<close>

theorem impact_probability_nonincreasing:
  assumes "distance a \<le> distance b" and "0 \<le> distance a"
    and "b = a\<lparr>distance := distance b\<rparr>"
  shows "\<exists>ra rb. analyzeAsteroid h a = Inr ra \<and> analyzeAsteroid h b = Inr rb
     \<and> impactProbability rb \<le> impactProbability ra"
proof -
  obtain ra where ra: "analyzeAsteroid h a = Inr ra"
    using analyzeAsteroid_fulfilled by blast
  obtain rb where rb: "analyzeAsteroid h b = Inr rb"
    using analyzeAsteroid_fulfilled by blast
  have pa: "impactProbability ra
      = max 0 (min 100 (parseFloat_toFixed (fst (impact_branch (distance a))) 1))"
    using projr_impactProbability[of h a] ra by simp
  have pb: "impactProbability rb
      = max 0 (min 100 (parseFloat_toFixed (fst (impact_branch (distance b))) 1))"
    using projr_impactProbability[of h b] rb by simp
  have "parseFloat_toFixed (fst (impact_branch (distance b))) 1
      \<le> parseFloat_toFixed (fst (impact_branch (distance a))) 1"
    by (rule parseFloat_toFixed_mono) (rule impact_branch_antimono[OF assms(1)])
  then have "impactProbability rb \<le> impactProbability ra"
    unfolding pa pb by linarith
  then show ?thesis using ra rb by simp
qed

theorem impact_probability_nonincreasing_witness:
  "distance (DEFAULT_INPUT\<lparr>distance := 8371\<rparr>) \<le> distance (DEFAULT_INPUT\<lparr>distance := 50000\<rparr>)
   \<and> 0 \<le> distance (DEFAULT_INPUT\<lparr>distance := 8371\<rparr>)
   \<and> (\<exists>ra rb. analyzeAsteroid silent_host (DEFAULT_INPUT\<lparr>distance := 8371\<rparr>) = Inr ra
        \<and> analyzeAsteroid silent_host (DEFAULT_INPUT\<lparr>distance := 50000\<rparr>) = Inr rb
        \<and> impactProbability rb \<le> impactProbability ra)"
  using impact_probability_nonincreasing
    [of "DEFAULT_INPUT\<lparr>distance := 8371\<rparr>" "DEFAULT_INPUT\<lparr>distance := 50000\<rparr>" silent_host]
  by simp

text \<open>
  C10. A negative distance is not rejected: it takes the first branch of the classifier,
  so the result has probability 100 and the hit flag set.
\<close>

theorem negative_distance_is_hit:
  assumes "distance input < 0"
  shows "\<exists>r. analyzeAsteroid h input = Inr r \<and> impactProbability r = 100 \<and> isHit r"
proof -
  obtain r where r: "analyzeAsteroid h input = Inr r"
    using analyzeAsteroid_fulfilled by blast
  have d: "distance input < 8371" using assms by simp
  have "impactProbability r = 100"
    using projr_impactProbability[of h input] r impact_branch_inner[OF d]
    by (simp add: parseFloat_toFixed_def)
  moreover have "isHit r"
    using projr_isHit[of h input] r impact_branch_inner[OF d] by simp
  ultimately show ?thesis using r by simp
qed

theorem negative_distance_is_hit_witness:
  "distance (DEFAULT_INPUT\<lparr>distance := - 1\<rparr>) < 0
   \<and> (\<exists>r. analyzeAsteroid silent_host (DEFAULT_INPUT\<lparr>distance := - 1\<rparr>) = Inr r
        \<and> impactProbability r = 100 \<and> isHit r)"
  using negative_distance_is_hit [of "DEFAULT_INPUT\<lparr>distance := - 1\<rparr>" silent_host]
  by simp

subsection \<open>Inputs outside the documented ranges\<close>

text \<open>
  C3, as the engine has it. The claim is that an input with non-positive diameter, or
  non-positive velocity, or negative distance is rejected. The engine has no check of its
  input and no rejecting path: with the diameter -1 it returns a result whose crater size
  is \<^verbatim>\<open>NaN\<close>.
\<close>

theorem invalid_input_not_rejected_counterexample:
  "diameter (DEFAULT_INPUT\<lparr>diameter := - 1\<rparr>) \<le> 0
   \<and> \<not> isl (analyzeAsteroid silent_host (DEFAULT_INPUT\<lparr>diameter := - 1\<rparr>))
   \<and> craterSizeMeters (projr (analyzeAsteroid silent_host (DEFAULT_INPUT\<lparr>diameter := - 1\<rparr>)))
       = NaN"
proof -
  obtain r where "analyzeAsteroid silent_host (DEFAULT_INPUT\<lparr>diameter := - 1\<rparr>) = Inr r"
    using analyzeAsteroid_fulfilled by blast
  then have "\<not> isl (analyzeAsteroid silent_host (DEFAULT_INPUT\<lparr>diameter := - 1\<rparr>))"
    by simp
  then show ?thesis
    by (simp add: crater_closed_form)
qed

text \<open>
  C3, amended. For every input with non-positive diameter, or non-positive velocity, or
  negative distance, the engine does not reject the call: it returns a result, and with a
  negative diameter the crater size of that result is \<^verbatim>\<open>NaN\<close>.
\<close>

theorem invalid_input_returns_result:
  assumes "diameter input \<le> 0 \<or> velocity input \<le> 0 \<or> distance input < 0"
  shows "\<exists>r. analyzeAsteroid h input = Inr r
    \<and> (diameter input < 0 \<longrightarrow> craterSizeMeters r = NaN)"
proof -
  obtain r where r: "analyzeAsteroid h input = Inr r"
    using analyzeAsteroid_fulfilled by blast
  have "craterSizeMeters r = NaN" if "diameter input < 0"
    using crater_closed_form[of h input] r that by auto
  then show ?thesis using r by blast
qed

theorem invalid_input_returns_result_witness:
  "(diameter (DEFAULT_INPUT\<lparr>diameter := - 1\<rparr>) \<le> 0
      \<or> velocity (DEFAULT_INPUT\<lparr>diameter := - 1\<rparr>) \<le> 0
      \<or> distance (DEFAULT_INPUT\<lparr>diameter := - 1\<rparr>) < 0)
   \<and> (\<exists>r. analyzeAsteroid silent_host (DEFAULT_INPUT\<lparr>diameter := - 1\<rparr>) = Inr r
        \<and> craterSizeMeters r = NaN)"
  using invalid_input_returns_result [of "DEFAULT_INPUT\<lparr>diameter := - 1\<rparr>" silent_host]
  by (auto simp: DEFAULT_INPUT_def)

subsection \<open>No error on valid input\<close>



subsection \<open>The dimensional-analysis trace\<close>

text \<open>
  C4. For every input the trace has exactly six entries, in the order radius, volume,
  mass, velocity conversion, kinetic energy, TNT equivalent (the labels are those of the
  source), and the result of each entry prints the intermediate value the numeric fields
  are computed from: the last entry prints the returned megatons, and the crater size is
  computed from the density and the converted velocity of entries three and four.
\<close>

theorem dimensional_process_steps:
  "\<exists>r. analyzeAsteroid h input = Inr r
     \<and> length (dimensionalProcess r) = 6
     \<and> map step (dimensionalProcess r) =
         [''Calculate Radius'', ''Calculate Volume'', ''Derive Mass'', ''Velocity Conversion'',
          ''Kinetic Energy'', ''TNT Equivalent'']
     \<and> (let density = density_of (type input);
             radius = diameter input / 2;
             volume = (4 / 3) * pi * radius ^ 3;
             mass = density * volume;
             velocityMs = velocity input * 1000;
             energyJoules = 0.5 * mass * velocityMs ^ 2;
             energyMt = energyJoules / 4184000000000000
         in map result (dimensionalProcess r) =
              [toFixed h radius 2 @ '' m'',
               toExponential h volume 2 @ '' m'' @ utf8_cubed,
               toExponential h mass 2 @ '' kg'',
               toLocaleString h velocityMs @ '' m/s'',
               toExponential h energyJoules 2 @ '' J'',
               toFixed h energyMt 2 @ '' MT'']
            \<and> kineticEnergyMegatons r = energyMt
            \<and> craterSizeMeters r =
                times_number (times_number (times_number (times_number (Num 1.161)
                  (Math_pow (density / 2500) (1 / 3))) (Math_pow (diameter input) 0.78))
                  (Math_pow velocityMs 0.44)) (Math_pow 9.81 (- 0.22)))"
  by (simp add: analyzeAsteroid_def Let_def TNT_JOULES_def split: prod.splits)

subsection \<open>Composition\<close>

text \<open>
  C5. For every input the composition is a function of the type alone: a fixed list for
  each of the four types, of four entries for Stony, Icy and Carbonaceous and of three
  for Metallic, whose percentages add up to 100, and the empty list, without an error,
  for a type outside the enum.
\<close>

theorem composition_by_type:
  "\<exists>r. analyzeAsteroid h input = Inr r
     \<and> composition r = getComposition (type input)
     \<and> (type input = STONY \<longrightarrow>
          map (\<lambda>c. (element c, percentage c)) (composition r) =
            [(''Silicates'', 70), (''Iron/Nickel'', 15), (''Pyroxene'', 10), (''Olivine'', 5)]
          \<and> length (composition r) = 4 \<and> sum_list (map percentage (composition r)) = 100)
     \<and> (type input = METALLIC \<longrightarrow>
          map (\<lambda>c. (element c, percentage c)) (composition r) =
            [(''Iron'', 85), (''Nickel'', 14), (''Iridium'', 1)]
          \<and> length (composition r) = 3 \<and> sum_list (map percentage (composition r)) = 100)
     \<and> (type input = ICY \<longrightarrow>
          map (\<lambda>c. (element c, percentage c)) (composition r) =
            [(''Water Ice'', 60), (''CO2 Ice'', 20), (''Dust'', 15), (''Organics'', 5)]
          \<and> length (composition r) = 4 \<and> sum_list (map percentage (composition r)) = 100)
     \<and> (type input = CARBONACEOUS \<longrightarrow>
          map (\<lambda>c. (element c, percentage c)) (composition r) =
            [(''Carbon'', 45), (''Water'', 20), (''Silicates'', 25), (''Sulfides'', 10)]
          \<and> length (composition r) = 4 \<and> sum_list (map percentage (composition r)) = 100)
     \<and> (type input \<notin> {STONY, METALLIC, ICY, CARBONACEOUS} \<longrightarrow> composition r = [])"
proof -
  obtain r where r: "analyzeAsteroid h input = Inr r"
    using analyzeAsteroid_fulfilled by blast
  have c: "composition r = getComposition (type input)"
    using projr_composition[of h input] r by simp
  show ?thesis using r c by (simp add: getComposition_def AsteroidType_distinct)
qed

theorem composition_by_type_witness:
  "(\<exists>r. analyzeAsteroid silent_host DEFAULT_INPUT = Inr r
      \<and> length (composition r) = 4 \<and> sum_list (map percentage (composition r)) = 100)
   \<and> (\<exists>r. analyzeAsteroid silent_host (DEFAULT_INPUT\<lparr>type := METALLIC\<rparr>) = Inr r
      \<and> length (composition r) = 3 \<and> sum_list (map percentage (composition r)) = 100)
   \<and> (\<exists>r. analyzeAsteroid silent_host (DEFAULT_INPUT\<lparr>type := ICY\<rparr>) = Inr r
      \<and> length (composition r) = 4 \<and> sum_list (map percentage (composition r)) = 100)
   \<and> (\<exists>r. analyzeAsteroid silent_host (DEFAULT_INPUT\<lparr>type := CARBONACEOUS\<rparr>) = Inr r
      \<and> length (composition r) = 4 \<and> sum_list (map percentage (composition r)) = 100)
   \<and> ''Basalt'' \<notin> {STONY, METALLIC, ICY, CARBONACEOUS}
   \<and> (\<exists>r. analyzeAsteroid silent_host (DEFAULT_INPUT\<lparr>type := ''Basalt''\<rparr>) = Inr r
      \<and> composition r = [])"
proof -
  have n: "''Basalt'' \<notin> {STONY, METALLIC, ICY, CARBONACEOUS}"
    by (simp add: STONY_def METALLIC_def ICY_def CARBONACEOUS_def)
  have s: "type DEFAULT_INPUT = STONY" by (simp add: DEFAULT_INPUT_def)
  have 1: "\<exists>r. analyzeAsteroid silent_host DEFAULT_INPUT = Inr r
      \<and> length (composition r) = 4 \<and> sum_list (map percentage (composition r)) = 100"
    using composition_by_type [of silent_host DEFAULT_INPUT] s by blast
  have 2: "\<exists>r. analyzeAsteroid silent_host (DEFAULT_INPUT\<lparr>type := METALLIC\<rparr>) = Inr r
      \<and> length (composition r) = 3 \<and> sum_list (map percentage (composition r)) = 100"
    using composition_by_type [of silent_host "DEFAULT_INPUT\<lparr>type := METALLIC\<rparr>"] by simp blast
  have 3: "\<exists>r. analyzeAsteroid silent_host (DEFAULT_INPUT\<lparr>type := ICY\<rparr>) = Inr r
      \<and> length (composition r) = 4 \<and> sum_list (map percentage (composition r)) = 100"
    using composition_by_type [of silent_host "DEFAULT_INPUT\<lparr>type := ICY\<rparr>"] by simp blast
  have 4: "\<exists>r. analyzeAsteroid silent_host (DEFAULT_INPUT\<lparr>type := CARBONACEOUS\<rparr>) = Inr r
      \<and> length (composition r) = 4 \<and> sum_list (map percentage (composition r)) = 100"
    using composition_by_type [of silent_host "DEFAULT_INPUT\<lparr>type := CARBONACEOUS\<rparr>"]
    by simp blast
  have 5: "\<exists>r. analyzeAsteroid silent_host (DEFAULT_INPUT\<lparr>type := ''Basalt''\<rparr>) = Inr r
      \<and> composition r = []"
    using n composition_by_type [of silent_host "DEFAULT_INPUT\<lparr>type := ''Basalt''\<rparr>"]
    by simp blast
  show ?thesis using n 1 2 3 4 5 by blast
qed

subsection \<open>Severity tier and report\<close>

text \<open>
  C8, as the engine has it. The claim is that the report is placed in both
  \<^verbatim>\<open>analysisSummary\<close> and \<^verbatim>\<open>rawMarkdown\<close>. The two fields of the result
  for the default input differ.
\<close>

theorem report_in_both_fields_counterexample:
  "rawMarkdown (projr (analyzeAsteroid silent_host DEFAULT_INPUT))
     \<noteq> analysisSummary (projr (analyzeAsteroid silent_host DEFAULT_INPUT))"
  by (simp add: projr_rawMarkdown projr_analysisSummary generateSummary_def)

text \<open>
  C8, amended. For every input the severity tier of the report is selected by the
  thresholds on the returned megatons (below 1 Local Damage, below 100 Regional
  Destruction, below 10000 Continental Catastrophe, otherwise Extinction Event) and is
  printed in capitals; the fixed-template report of name (upper-cased by the host), type
  label, probability, status line, energy value and tier is placed in
  \<^verbatim>\<open>analysisSummary\<close>, and \<^verbatim>\<open>rawMarkdown\<close> is the fixed text
  "Generated via Local Physics Engine.".
\<close>

theorem severity_tiers_and_report:
  "\<exists>r. analyzeAsteroid h input = Inr r
     \<and> (let energy = kineticEnergyMegatons r;
             tier = (if energy < 1 then ''Local Damage''
                     else if energy < 100 then ''Regional Destruction''
                     else if energy < 10000 then ''Continental Catastrophe''
                     else ''Extinction Event'')
         in analysisSummary r =
              ''PHYSICS ENGINE REPORT // TARGET: '' @ toUpperCase h (name input) @ nl
              @ nl
              @ ''CLASSIFICATION: '' @ type input @ nl
              @ ''TRAJECTORY ANALYSIS: '' @ toString h (impactProbability r)
              @ ''% Probability of Impact.'' @ nl
              @ ''STATUS: '' @ (if isHit r then ''CRITICAL: IMPACT TRAJECTORY CONFIRMED.''
                                else ''SAFE: NO INTERSECTION DETECTED.'') @ nl
              @ nl
              @ ''KINETIC YIELD: ~'' @ toLocaleString_maximumFractionDigits h energy 2
              @ '' Megatons.'' @ nl
              @ ''THREAT LEVEL: '' @ toUpperCase_ASCII tier @ ''.'' @ nl
              @ nl
              @ ''Dimensional analysis verifies mass-velocity integration. All constants valid.''
            \<and> toUpperCase_ASCII tier =
                (if energy < 1 then ''LOCAL DAMAGE''
                 else if energy < 100 then ''REGIONAL DESTRUCTION''
                 else if energy < 10000 then ''CONTINENTAL CATASTROPHE''
                 else ''EXTINCTION EVENT''))
     \<and> rawMarkdown r = ''Generated via Local Physics Engine.''"
proof -
  obtain r where r: "analyzeAsteroid h input = Inr r"
    using analyzeAsteroid_fulfilled by blast
  show ?thesis
    using r projr_analysisSummary[of h input] projr_rawMarkdown[of h input]
    by (simp add: generateSummary_def energyStr_def status_def Let_def toUpperCase_tiers)
qed

end
